theory Spec2Isabelle
  imports Main
begin

section \<open>JavaScript values\<close>

text \<open>
  The client in \<^verbatim>\<open>src/api.js\<close> reads decoded JSON bodies, builds strings with template
  literals and \<^verbatim>\<open>JSON.stringify\<close>, and counts polling attempts. The values it handles
  are modelled by the datatypes below.

  Numbers: a JavaScript number is \<open>NaN\<close>, an infinity or a finite value. The finite values
  of the model are integers, which is what the program computes with (an attempt counter,
  a parsed server id, a number of milliseconds); \<open>Fin i\<close> stands for the double nearest to
  \<open>i\<close>, and that double is what is printed. Fractions and negative zero are outside the
  model, and the attempt counter and its comparison with the budget are exact, as they are
  in JavaScript below \<open>2^53\<close>.

  Strings are byte strings holding UTF-8 text.
\<close>

datatype jsnum = NaN | PosInf | NegInf | Fin int

datatype jsval =
    Undefined
  | Null
  | Bool bool
  | Number jsnum
  | String string
  | Array "jsval list"
  | Object "(string \<times> jsval) list"

text \<open>
  What the program can throw or be handed as a rejection: the \<^verbatim>\<open>new Error(msg)\<close> of the
  source, the \<^verbatim>\<open>TypeError\<close> of the runtime (a property read on \<^verbatim>\<open>null\<close>, a failed
  \<^verbatim>\<open>fetch\<close>) and the \<^verbatim>\<open>SyntaxError\<close> of \<^verbatim>\<open>response.json()\<close> on a body that is not JSON.
\<close>

datatype js_error = Error string | TypeError string | SyntaxError string

subsection \<open>Truthiness and the \<^verbatim>\<open>||\<close> operator\<close>

fun num_truthy :: "jsnum \<Rightarrow> bool" where
  "num_truthy NaN = False"
| "num_truthy PosInf = True"
| "num_truthy NegInf = True"
| "num_truthy (Fin i) = (i \<noteq> 0)"

fun ToBoolean :: "jsval \<Rightarrow> bool" where
  "ToBoolean Undefined = False"
| "ToBoolean Null = False"
| "ToBoolean (Bool b) = b"
| "ToBoolean (Number n) = num_truthy n"
| "ToBoolean (String s) = (s \<noteq> [])"
| "ToBoolean (Array xs) = True"
| "ToBoolean (Object kvs) = True"

definition js_or :: "jsval \<Rightarrow> jsval \<Rightarrow> jsval" where
  "js_or a b = (if ToBoolean a then a else b)"

subsection \<open>Property reads\<close>

text \<open>
  \<^verbatim>\<open>v.name\<close>: a read on \<^verbatim>\<open>null\<close> or \<^verbatim>\<open>undefined\<close> throws a \<^verbatim>\<open>TypeError\<close>; on an object
  decoded from JSON it yields the own property of that name, or \<^verbatim>\<open>undefined\<close>; on any
  other value it yields \<^verbatim>\<open>undefined\<close> for the names the program reads (\<^verbatim>\<open>access_token\<close>,
  \<^verbatim>\<open>status\<close>, \<^verbatim>\<open>message\<close>, \<^verbatim>\<open>operation\<close>, \<^verbatim>\<open>is_completed\<close>), none of which is an inherited
  property of a string, number, boolean or array.
\<close>

definition cannot_read :: "string \<Rightarrow> string \<Rightarrow> js_error" where
  "cannot_read what name =
     TypeError (''Cannot read properties of '' @ what @ '' (reading '' @
                [CHR 0x27] @ name @ [CHR 0x27] @ '')'')"

fun get_prop :: "jsval \<Rightarrow> string \<Rightarrow> js_error + jsval" where
  "get_prop Undefined name = Inl (cannot_read ''undefined'' name)"
| "get_prop Null name = Inl (cannot_read ''null'' name)"
| "get_prop (Object kvs) name =
     (case map_of kvs name of None \<Rightarrow> Inr Undefined | Some v \<Rightarrow> Inr v)"
| "get_prop v name = Inr Undefined"

subsection \<open>Conversion to string\<close>

definition digit_char :: "nat \<Rightarrow> char" where
  "digit_char d = char_of (48 + d)"

function show_digits :: "int \<Rightarrow> string" where
  "show_digits n =
     (if n < 10 then [digit_char (nat n)]
      else show_digits (n div 10) @ [digit_char (nat (n mod 10))])"
  by pat_completeness auto
termination
  by (relation "measure nat") auto

declare show_digits.simps [simp del]

text \<open>
  The double nearest to a non-negative integer: integers of at most 53 bits are doubles;
  a longer one keeps its 53 leading bits, rounded to nearest, ties to even.
\<close>

function bit_count :: "int \<Rightarrow> nat" where
  "bit_count n = (if n \<le> 0 then 0 else Suc (bit_count (n div 2)))"
  by pat_completeness auto
termination
  by (relation "measure nat") auto

declare bit_count.simps [simp del]

definition round_double :: "int \<Rightarrow> int" where
  "round_double v =
     (let e = bit_count v in
      if e \<le> 53 then v
      else
        (let unit = 2 ^ (e - 53); q = v div unit; r = v mod unit
         in (if unit < 2 * r \<or> (2 * r = unit \<and> odd q) then q + 1 else q) * unit))"

text \<open>Beyond the largest double the value is an infinity.\<close>

definition overflows :: "int \<Rightarrow> bool" where
  "overflows i = (1024 < bit_count (round_double \<bar>i\<bar>))"

definition to_number :: "int \<Rightarrow> jsnum" where
  "to_number i =
     (if overflows i then (if i < 0 then NegInf else PosInf)
      else Fin (if i < 0 then - round_double \<bar>i\<bar> else round_double \<bar>i\<bar>))"

text \<open>
  \<^verbatim>\<open>Number.prototype.toString\<close> on an integral double \<open>v\<close>: the digits are those of the
  integer with the fewest significant digits that still rounds to \<open>v\<close> (the nearest to
  \<open>v\<close> among them, the even one on a tie); \<open>shortest v m\<close> looks for it among the multiples
  of \<open>10 ^ m\<close>, then of \<open>10 ^ (m - 1)\<close>, and so on. Up to 21 digits are written out;
  longer numbers are written with an exponent.
\<close>

fun shortest :: "int \<Rightarrow> nat \<Rightarrow> int" where
  "shortest v 0 = v"
| "shortest v (Suc m) =
     (let p = 10 ^ Suc m; lo = (v div p) * p; hi = lo + p
      in if round_double lo = v \<and> round_double hi = v
         then (if v - lo < hi - v \<or> (v - lo = hi - v \<and> even (v div p)) then lo else hi)
         else if round_double lo = v then lo
         else if round_double hi = v then hi
         else shortest v m)"

definition number_text :: "int \<Rightarrow> string" where
  "number_text v =
     (let ds = show_digits (shortest v (length (show_digits v) - 1));
          n = length ds;
          s = rev (dropWhile (\<lambda>d. d = CHR ''0'') (rev ds))
      in if n \<le> 21 then ds
         else if length s = 1 then s @ ''e+'' @ show_digits (int n - 1)
         else hd s # ''.'' @ tl s @ ''e+'' @ show_digits (int n - 1))"

definition show_int :: "int \<Rightarrow> string" where
  "show_int i =
     (if overflows i then (if i < 0 then ''-Infinity'' else ''Infinity'')
      else (if i < 0 then ''-'' else []) @ number_text (round_double \<bar>i\<bar>))"

fun num_to_string :: "jsnum \<Rightarrow> string" where
  "num_to_string NaN = ''NaN''"
| "num_to_string PosInf = ''Infinity''"
| "num_to_string NegInf = ''-Infinity''"
| "num_to_string (Fin i) = show_int i"

fun join_with :: "string \<Rightarrow> string list \<Rightarrow> string" where
  "join_with sep [] = []"
| "join_with sep [x] = x"
| "join_with sep (x # y # ys) = x @ sep @ join_with sep (y # ys)"

text \<open>
  \<^verbatim>\<open>`${v}`\<close>: the string a template literal substitutes for a value, or the error the
  conversion throws. An array is its elements joined by commas, \<^verbatim>\<open>null\<close> and \<^verbatim>\<open>undefined\<close>
  elements giving the empty string. An object decoded from JSON is \<^verbatim>\<open>[object Object]\<close>,
  unless it has a property of its own named \<^verbatim>\<open>toString\<close>: that value hides
  \<^verbatim>\<open>Object.prototype.toString\<close> and is not callable, \<^verbatim>\<open>valueOf\<close> yields no primitive either,
  and the conversion throws a \<^verbatim>\<open>TypeError\<close>.
\<close>

fun ToString :: "jsval \<Rightarrow> js_error + string"
  and elements_to_strings :: "jsval list \<Rightarrow> js_error + string list" where
  "ToString Undefined = Inr ''undefined''"
| "ToString Null = Inr ''null''"
| "ToString (Bool b) = Inr (if b then ''true'' else ''false'')"
| "ToString (Number n) = Inr (num_to_string n)"
| "ToString (String s) = Inr s"
| "ToString (Array xs) =
     (case elements_to_strings xs of
        Inl e \<Rightarrow> Inl e
      | Inr ss \<Rightarrow> Inr (join_with '','' ss))"
| "ToString (Object kvs) =
     (if map_of kvs ''toString'' = None then Inr ''[object Object]''
      else Inl (TypeError ''Cannot convert object to primitive value''))"
| "elements_to_strings [] = Inr []"
| "elements_to_strings (v # vs) =
     (case (if v = Undefined \<or> v = Null then Inr [] else ToString v) of
        Inl e \<Rightarrow> Inl e
      | Inr s \<Rightarrow>
          (case elements_to_strings vs of
             Inl e \<Rightarrow> Inl e
           | Inr ss \<Rightarrow> Inr (s # ss)))"

subsection \<open>\<^verbatim>\<open>JSON.stringify\<close>\<close>

definition hex_char :: "nat \<Rightarrow> char" where
  "hex_char d = (if d < 10 then char_of (48 + d) else char_of (87 + d))"

definition quote_char :: "char \<Rightarrow> string" where
  "quote_char c =
     (if c = CHR 0x22 then [CHR 0x5C, CHR 0x22]
      else if c = CHR 0x5C then [CHR 0x5C, CHR 0x5C]
      else if c = CHR 0x08 then [CHR 0x5C, CHR ''b'']
      else if c = CHR 0x0C then [CHR 0x5C, CHR ''f'']
      else if c = CHR 0x0A then [CHR 0x5C, CHR ''n'']
      else if c = CHR 0x0D then [CHR 0x5C, CHR ''r'']
      else if c = CHR 0x09 then [CHR 0x5C, CHR ''t'']
      else if (of_char c :: nat) < 32
        then [CHR 0x5C, CHR ''u'', CHR ''0'', CHR ''0'',
              hex_char (of_char c div 16), hex_char (of_char c mod 16)]
      else [c])"

definition quote_json :: "string \<Rightarrow> string" where
  "quote_json s = [CHR 0x22] @ concat (map quote_char s) @ [CHR 0x22]"

text \<open>
  The text of a value inside a document: a number that is not finite is \<^verbatim>\<open>null\<close>, an
  \<^verbatim>\<open>undefined\<close> array element is \<^verbatim>\<open>null\<close>, and a property whose value is \<^verbatim>\<open>undefined\<close> is
  left out. An object is the association list of its properties, in the order JavaScript
  enumerates them; an object decoded from JSON repeats no name.
\<close>

fun json_text :: "jsval \<Rightarrow> string"
  and json_elements :: "jsval list \<Rightarrow> string list"
  and json_members :: "(string \<times> jsval) list \<Rightarrow> string list" where
  "json_text Undefined = ''null''"
| "json_text Null = ''null''"
| "json_text (Bool b) = (if b then ''true'' else ''false'')"
| "json_text (Number n) =
     (case n of Fin i \<Rightarrow> if overflows i then ''null'' else show_int i | _ \<Rightarrow> ''null'')"
| "json_text (String s) = quote_json s"
| "json_text (Array xs) = ''['' @ join_with '','' (json_elements xs) @ '']''"
| "json_text (Object kvs) = ''{'' @ join_with '','' (json_members kvs) @ ''}''"
| "json_elements [] = []"
| "json_elements (v # vs) = json_text v # json_elements vs"
| "json_members [] = []"
| "json_members ((k, v) # kvs) =
     (if v = Undefined then json_members kvs
      else (quote_json k @ '':'' @ json_text v) # json_members kvs)"

text \<open>\<^verbatim>\<open>JSON.stringify(v)\<close> is \<^verbatim>\<open>undefined\<close> on \<^verbatim>\<open>undefined\<close> and a string otherwise.\<close>

definition JSON_stringify :: "jsval \<Rightarrow> jsval" where
  "JSON_stringify v = (if v = Undefined then Undefined else String (json_text v))"

text \<open>
  \<^verbatim>\<open>`${JSON.stringify(v)}`\<close>, and \<^verbatim>\<open>JSON.stringify(v)\<close> as an argument of \<^verbatim>\<open>console.log\<close>: the
  string itself, or \<^verbatim>\<open>undefined\<close> spelt out. Nothing is thrown here: a value decoded from
  JSON has no callable \<^verbatim>\<open>toJSON\<close> and no cycle.
\<close>

definition stringified :: "jsval \<Rightarrow> string" where
  "stringified v = (case JSON_stringify v of String s \<Rightarrow> s | _ \<Rightarrow> ''undefined'')"

section \<open>The network and the console\<close>

text \<open>
  A request is the URL and the options handed to \<^verbatim>\<open>fetch\<close>; \<open>http_method\<close> is the option
  \<^verbatim>\<open>method\<close>, and a request sent without a body has the body \<^verbatim>\<open>undefined\<close>.
\<close>

record request =
  url :: string
  http_method :: string
  headers :: "(string \<times> string) list"
  body :: jsval

text \<open>
  A response is what \<^verbatim>\<open>response.json()\<close> resolves or rejects with; the program reads nothing
  else of it (no status code, no header).
\<close>

datatype response = Response (json: "js_error + jsval")

datatype event =
    Fetch request
  | ConsoleLog string
  | StdoutWrite string
  | SetTimeout jsnum

text \<open>
  The world the program runs in: \<open>replies w k\<close> is what the network answers to the
  \<open>k\<close>-th request from now (a rejection of \<^verbatim>\<open>fetch\<close>, or a response), and \<open>trace w\<close> is
  everything the program has done so far, oldest first.
\<close>

record world =
  replies :: "nat \<Rightarrow> js_error + response"
  trace :: "event list"

definition emit :: "event \<Rightarrow> world \<Rightarrow> world" where
  "emit e w = w\<lparr>trace := trace w @ [e]\<rparr>"

definition console_log :: "string \<Rightarrow> world \<Rightarrow> world" where
  "console_log s w = emit (ConsoleLog s) w"

definition stdout_write :: "string \<Rightarrow> world \<Rightarrow> world" where
  "stdout_write s w = emit (StdoutWrite s) w"

definition fetch :: "request \<Rightarrow> world \<Rightarrow> (js_error + response) \<times> world" where
  "fetch req w =
     (replies w 0, (emit (Fetch req) w)\<lparr>replies := (\<lambda>k. replies w (Suc k))\<rparr>)"

text \<open>\<^verbatim>\<open>await fetch(...)\<close> followed by \<^verbatim>\<open>await response.json()\<close>.\<close>

definition fetch_json :: "request \<Rightarrow> world \<Rightarrow> (js_error + jsval) \<times> world" where
  "fetch_json req w =
     (case fetch req w of
        (Inl e, w') \<Rightarrow> (Inl e, w')
      | (Inr response, w') \<Rightarrow> (json response, w'))"

section \<open>The client\<close>

definition API_BASE :: string where
  "API_BASE = ''https://api.cloudways.com/api/v1''"

definition check_mark :: string where
  "check_mark = [CHR 0xE2, CHR 0x9C, CHR 0x85]"

subsection \<open>\<^verbatim>\<open>getAccessToken\<close>\<close>

definition getAccessToken :: "string \<Rightarrow> string \<Rightarrow> world \<Rightarrow> (js_error + jsval) \<times> world" where
  "getAccessToken email apiKey w =
     (let w1 = console_log ''[API] Obtaining OAuth access token...'' w in
      case fetch_json
             \<lparr>url = API_BASE @ ''/oauth/access_token'',
              http_method = ''POST'',
              headers = [(''Content-Type'', ''application/json'')],
              body = JSON_stringify (Object [(''email'', String email), (''api_key'', String apiKey)])\<rparr>
             w1 of
        (Inl e, w2) \<Rightarrow> (Inl e, w2)
      | (Inr data, w2) \<Rightarrow>
          (case get_prop data ''access_token'' of
             Inl e \<Rightarrow> (Inl e, w2)
           | Inr access_token \<Rightarrow>
               if \<not> ToBoolean access_token
               then (Inl (Error (''Failed to obtain access token: '' @ stringified data)), w2)
               else (Inr access_token,
                     console_log (check_mark @ '' [API] Access token obtained'') w2)))"

subsection \<open>\<^verbatim>\<open>parseInt(s, 10)\<close>\<close>

text \<open>
  \<^verbatim>\<open>parseInt\<close> skips leading white space (the ASCII characters and, in UTF-8, the
  no-break space, the byte order mark, the space separators and the line and paragraph
  separators), reads an optional sign, then the longest run of decimal digits, and ignores
  the rest of the string. With no digit there the result is \<^verbatim>\<open>NaN\<close>; otherwise it is
  the double nearest to the integer read. Nothing is thrown.
\<close>

definition ws_len :: "string \<Rightarrow> nat" where
  "ws_len s =
     (if s = [] then 0
      else if hd s \<in> set [CHR 0x09, CHR 0x0A, CHR 0x0B, CHR 0x0C, CHR 0x0D, CHR 0x20] then 1
      else if take 2 s = [CHR 0xC2, CHR 0xA0] then 2
      else if take 3 s \<in> set
           [[CHR 0xEF, CHR 0xBB, CHR 0xBF], [CHR 0xE1, CHR 0x9A, CHR 0x80],
            [CHR 0xE2, CHR 0x80, CHR 0x80], [CHR 0xE2, CHR 0x80, CHR 0x81],
            [CHR 0xE2, CHR 0x80, CHR 0x82], [CHR 0xE2, CHR 0x80, CHR 0x83],
            [CHR 0xE2, CHR 0x80, CHR 0x84], [CHR 0xE2, CHR 0x80, CHR 0x85],
            [CHR 0xE2, CHR 0x80, CHR 0x86], [CHR 0xE2, CHR 0x80, CHR 0x87],
            [CHR 0xE2, CHR 0x80, CHR 0x88], [CHR 0xE2, CHR 0x80, CHR 0x89],
            [CHR 0xE2, CHR 0x80, CHR 0x8A], [CHR 0xE2, CHR 0x80, CHR 0xA8],
            [CHR 0xE2, CHR 0x80, CHR 0xA9], [CHR 0xE2, CHR 0x80, CHR 0xAF],
            [CHR 0xE2, CHR 0x81, CHR 0x9F], [CHR 0xE3, CHR 0x80, CHR 0x80]] then 3
      else 0)"

function trim_start :: "string \<Rightarrow> string" where
  "trim_start s = (if ws_len s = 0 then s else trim_start (drop (ws_len s) s))"
  by pat_completeness auto
termination
proof (relation "measure length")
  show "wf (measure length)" by simp
next
  fix s :: string
  assume "ws_len s \<noteq> 0"
  then have "s \<noteq> []" and "0 < ws_len s"
    by (auto simp: ws_len_def)
  then show "(drop (ws_len s) s, s) \<in> measure length"
    by simp
qed

declare trim_start.simps [simp del]

definition is_digit :: "char \<Rightarrow> bool" where
  "is_digit c = (48 \<le> (of_char c :: nat) \<and> (of_char c :: nat) \<le> 57)"

definition digit_value :: "char \<Rightarrow> nat" where
  "digit_value c = of_char c - 48"

definition strip_sign :: "string \<Rightarrow> string" where
  "strip_sign s = (if s \<noteq> [] \<and> (hd s = CHR ''+'' \<or> hd s = CHR ''-'') then tl s else s)"

definition parseInt10 :: "string \<Rightarrow> jsnum" where
  "parseInt10 string =
     (let S = trim_start string;
          sign = (if S \<noteq> [] \<and> hd S = CHR ''-'' then - 1 else 1 :: int);
          Z = takeWhile is_digit (strip_sign S)
      in if Z = [] then NaN
         else to_number (sign * foldl (\<lambda>n c. 10 * n + int (digit_value c)) 0 Z))"

subsection \<open>\<^verbatim>\<open>executeVarnishAction\<close>\<close>

definition executeVarnishAction ::
  "string \<Rightarrow> string \<Rightarrow> string \<Rightarrow> world \<Rightarrow> (js_error + jsval) \<times> world" where
  "executeVarnishAction token serverId action w =
     (let endpoint = API_BASE @ ''/service/varnish'';
          serverIdInt = parseInt10 serverId;
          payload = Object [(''server_id'', Number serverIdInt), (''action'', String action)];
          w1 = console_log (''[API] Executing Varnish '' @ action @ '' on server '' @ serverId @ ''...'') w
      in
      case fetch_json
             \<lparr>url = endpoint,
              http_method = ''POST'',
              headers = [(''Authorization'', ''Bearer '' @ token),
                         (''Content-Type'', ''application/json'')],
              body = JSON_stringify payload\<rparr>
             w1 of
        (Inl e, w2) \<Rightarrow> (Inl e, w2)
      | (Inr data, w2) \<Rightarrow>
          (let w3 = console_log (''[API] Response: '' @ stringified data) w2 in
           case get_prop data ''status'' of
             Inl e \<Rightarrow> (Inl e, w3)
           | Inr status \<Rightarrow>
               if status = Bool False then
                 (case get_prop data ''message'' of
                    Inl e \<Rightarrow> (Inl e, w3)
                  | Inr message \<Rightarrow>
                      (let errorMsg = js_or message (String ''Unknown error'')
                       in case ToString errorMsg of
                            Inl e \<Rightarrow> (Inl e, w3)
                          | Inr printed \<Rightarrow> (Inl (Error (''Operation failed: '' @ printed)), w3)))
               else
                 (case get_prop data ''status'' of
                    Inl e \<Rightarrow> (Inl e, w3)
                  | Inr status' \<Rightarrow>
                      if status' = Bool True then
                        (Inr (Object [(''completed'', Bool True)]),
                         console_log (check_mark @ '' [API] Varnish '' @ action @
                                      '' completed successfully'') w3)
                      else
                        (Inl (Error (''Unexpected response: '' @ stringified data)), w3))))"

subsection \<open>\<^verbatim>\<open>checkOperationStatus\<close> and \<^verbatim>\<open>sleep\<close>\<close>

definition checkOperationStatus ::
  "string \<Rightarrow> string \<Rightarrow> world \<Rightarrow> (js_error + jsval) \<times> world" where
  "checkOperationStatus token operationId w =
     fetch_json
       \<lparr>url = API_BASE @ ''/operation/'' @ operationId,
        http_method = ''GET'',
        headers = [(''Authorization'', ''Bearer '' @ token)],
        body = Undefined\<rparr>
       w"

definition sleep :: "jsnum \<Rightarrow> world \<Rightarrow> world" where
  "sleep ms w = emit (SetTimeout ms) w"

subsection \<open>\<^verbatim>\<open>checkOperationUntilComplete\<close>\<close>

text \<open>\<^verbatim>\<open>a > b\<close> on numbers: false as soon as one side is \<^verbatim>\<open>NaN\<close>.\<close>

fun js_gt :: "jsnum \<Rightarrow> jsnum \<Rightarrow> bool" where
  "js_gt NaN b = False"
| "js_gt a NaN = False"
| "js_gt PosInf b = (b \<noteq> PosInf)"
| "js_gt NegInf b = False"
| "js_gt (Fin i) PosInf = False"
| "js_gt (Fin i) NegInf = True"
| "js_gt (Fin i) (Fin j) = (i > j)"

text \<open>
  The recursion of the source has no bound of its own: with a budget that no attempt
  number exceeds and an operation that never completes it goes on for ever. The result
  \<open>None\<close> stands for a call that never settles.
\<close>

partial_function (option) checkOperationUntilComplete ::
  "string \<Rightarrow> string \<Rightarrow> int \<Rightarrow> jsnum \<Rightarrow> jsnum \<Rightarrow> world \<Rightarrow> ((js_error + jsval) \<times> world) option" where
  "checkOperationUntilComplete token operationId attempt maxAttempts interval w =
     (if js_gt (Fin attempt) maxAttempts then
        (let w1 = console_log [] w;
             errorMsg = ''Operation timed out after '' @ num_to_string maxAttempts @
                        '' attempts (ID: '' @ operationId @ '')''
         in Some (Inl (Error errorMsg), w1))
      else
        (case checkOperationStatus token operationId (sleep interval w) of
           (Inl e, w2) \<Rightarrow> Some (Inl e, w2)
         | (Inr status, w2) \<Rightarrow>
             (case get_prop status ''operation'' of
                Inl e \<Rightarrow> Some (Inl e, w2)
              | Inr operation \<Rightarrow>
                  if ToBoolean operation then
                    (case get_prop operation ''is_completed'' of
                       Inl e \<Rightarrow> Some (Inl e, w2)
                     | Inr is_completed \<Rightarrow>
                         if ToBoolean is_completed then
                           Some (Inr operation,
                                 console_log (check_mark @ '' [API] Operation completed successfully'') w2)
                         else
                           checkOperationUntilComplete token operationId (attempt + 1)
                             maxAttempts interval (stdout_write ''.'' w2))
                  else
                    checkOperationUntilComplete token operationId (attempt + 1)
                      maxAttempts interval (stdout_write ''.'' w2))))"

subsection \<open>\<^verbatim>\<open>waitForCompletion\<close>\<close>

text \<open>
  The two optional arguments are documented as numbers: a caller passes a number, leaves
  the argument out (\<^verbatim>\<open>undefined\<close>) or passes \<^verbatim>\<open>null\<close>.
\<close>

datatype num_arg = ArgUndefined | ArgNull | ArgNumber jsnum

fun arg_truthy :: "num_arg \<Rightarrow> bool" where
  "arg_truthy ArgUndefined = False"
| "arg_truthy ArgNull = False"
| "arg_truthy (ArgNumber n) = num_truthy n"

text \<open>\<^verbatim>\<open>arg || d\<close> for such an argument and a number \<open>d\<close>.\<close>

fun arg_or :: "num_arg \<Rightarrow> jsnum \<Rightarrow> jsnum" where
  "arg_or (ArgNumber n) d = (if num_truthy n then n else d)"
| "arg_or a d = d"

definition waitForCompletion ::
  "string \<Rightarrow> string \<Rightarrow> num_arg \<Rightarrow> num_arg \<Rightarrow> world \<Rightarrow> ((js_error + jsval) \<times> world) option" where
  "waitForCompletion token operationId maxAttempts interval w =
     (let maxWait = arg_or maxAttempts (Fin 30);
          waitInterval = arg_or interval (Fin 5000);
          w1 = console_log ''[API] Waiting for operation to complete...'' w
      in checkOperationUntilComplete token operationId 1 maxWait waitInterval w1)"

section \<open>Vocabulary of the statements\<close>

text \<open>The three requests the client sends.\<close>

definition token_request :: "string \<Rightarrow> string \<Rightarrow> request" where
  "token_request email apiKey =
     \<lparr>url = ''https://api.cloudways.com/api/v1/oauth/access_token'',
      http_method = ''POST'',
      headers = [(''Content-Type'', ''application/json'')],
      body = JSON_stringify (Object [(''email'', String email), (''api_key'', String apiKey)])\<rparr>"


definition status_request :: "string \<Rightarrow> string \<Rightarrow> request" where
  "status_request token operationId =
     \<lparr>url = ''https://api.cloudways.com/api/v1/operation/'' @ operationId,
      http_method = ''GET'',
      headers = [(''Authorization'', ''Bearer '' @ token)],
      body = Undefined\<rparr>"

text \<open>The requests recorded in a trace, oldest first.\<close>

fun fetches :: "event list \<Rightarrow> request list" where
  "fetches [] = []"
| "fetches (Fetch r # es) = r # fetches es"
| "fetches (e # es) = fetches es"

text \<open>
  What one unsuccessful polling cycle leaves in the trace: the timer, the status request
  and the progress dot.
\<close>

definition poll_cycle :: "string \<Rightarrow> string \<Rightarrow> jsnum \<Rightarrow> event list" where
  "poll_cycle token operationId interval =
     [SetTimeout interval, Fetch (status_request token operationId), StdoutWrite ''.'']"

text \<open>The world after \<open>n\<close> more requests were answered and the events \<open>es\<close> took place.\<close>

definition advance :: "nat \<Rightarrow> event list \<Rightarrow> world \<Rightarrow> world" where
  "advance n es w = w\<lparr>replies := (\<lambda>k. replies w (k + n)), trace := trace w @ es\<rparr>"

text \<open>
  A status body on which the loop goes on: the read of \<^verbatim>\<open>operation\<close> succeeds, and the
  operation is falsy or its \<^verbatim>\<open>is_completed\<close> is falsy.
\<close>

definition pending :: "jsval \<Rightarrow> bool" where
  "pending status =
     (case get_prop status ''operation'' of
        Inl e \<Rightarrow> False
      | Inr operation \<Rightarrow>
          \<not> ToBoolean operation \<or>
          (case get_prop operation ''is_completed'' of
             Inl e \<Rightarrow> False
           | Inr is_completed \<Rightarrow> \<not> ToBoolean is_completed))"



text \<open>
  Two worlds to run the client in: a network that answers every request with the body
  \<open>b\<close>, and one that answers with the bodies \<open>bs\<close> in turn and with \<open>b\<close> from then on.
\<close>

definition answering :: "jsval \<Rightarrow> world" where
  "answering b = \<lparr>replies = (\<lambda>k. Inr (Response (Inr b))), trace = []\<rparr>"

definition scripted :: "jsval list \<Rightarrow> jsval \<Rightarrow> world" where
  "scripted bs b =
     \<lparr>replies = (\<lambda>k. Inr (Response (Inr (if k < length bs then bs ! k else b)))), trace = []\<rparr>"

section \<open>Basic facts\<close>

lemma get_prop_Inr_defined: "get_prop v name = Inr x \<Longrightarrow> v \<noteq> Null \<and> v \<noteq> Undefined"
  by (cases v) auto

lemma get_prop_total: "v \<noteq> Null \<Longrightarrow> v \<noteq> Undefined \<Longrightarrow> \<exists>x. get_prop v name = Inr x"
  by (cases v) (auto split: option.splits)

lemma get_prop_truthy_object: "get_prop v name = Inr x \<Longrightarrow> ToBoolean x \<Longrightarrow> ToBoolean v"
  by (cases v) (auto split: option.splits)

lemma stringify_defined: "v \<noteq> Undefined \<Longrightarrow> stringified v = json_text v"
  by (simp add: stringified_def JSON_stringify_def)

lemma fetches_append: "fetches (xs @ ys) = fetches xs @ fetches ys"
  by (induction xs rule: fetches.induct) auto

lemma fetches_cycles:
  "fetches (concat (replicate n (poll_cycle token operationId interval))) =
   replicate n (status_request token operationId)"
  by (induction n) (auto simp: poll_cycle_def)

lemma replies_advance: "replies (advance n es w) k = replies w (k + n)"
  by (simp add: advance_def)

lemma trace_advance: "trace (advance n es w) = trace w @ es"
  by (simp add: advance_def)

lemma advance_advance: "advance n es (advance m ds w) = advance (m + n) (ds @ es) w"
  by (simp add: advance_def ac_simps)

lemma stdout_write_advance: "stdout_write s (advance n es w) = advance n (es @ [StdoutWrite s]) w"
  by (simp add: advance_def stdout_write_def emit_def)

lemma console_log_advance: "console_log s (advance n es w) = advance n (es @ [ConsoleLog s]) w"
  by (simp add: advance_def console_log_def emit_def)

lemma console_log_eq_advance: "console_log s w = advance 0 [ConsoleLog s] w"
  by (simp add: advance_def console_log_def emit_def)

lemma js_gt_mono: "js_gt (Fin i) m \<Longrightarrow> i \<le> j \<Longrightarrow> js_gt (Fin j) m"
  by (cases m) auto

lemma arg_or_falsy: "\<not> arg_truthy a \<Longrightarrow> arg_or a d = d"
  by (cases a) auto

lemma arg_falsy_cases:
  "\<not> arg_truthy a \<longleftrightarrow> a \<in> {ArgUndefined, ArgNull, ArgNumber NaN, ArgNumber (Fin 0)}"
proof (cases a)
  case (ArgNumber n)
  then show ?thesis by (cases n) auto
qed auto



text \<open>The only error a conversion to string throws.\<close>

lemma ToString_error:
  "ToString v = Inl e \<Longrightarrow> e = TypeError ''Cannot convert object to primitive value''"
  "elements_to_strings vs = Inl e \<Longrightarrow> e = TypeError ''Cannot convert object to primitive value''"
  by (induction v and vs rule: ToString_elements_to_strings.induct)
     (auto split: sum.splits if_splits)

text \<open>
  Printing follows the double: sixteen digits and zeros beyond \<open>2^53\<close>, an exponent from
  \<open>10^21\<close> on, and \<^verbatim>\<open>parseInt\<close> rounds what it reads.
\<close>

lemma show_int_large:
  "show_int 1152921504606846976 = ''1152921504606847000''"
  "show_int 1000000000000000000000 = ''1e+21''"
  "show_int (- 1180591620717411303424) = ''-1.1805916207174113e+21''"
  by code_simp+

lemma parseInt10_rounds: "parseInt10 ''9007199254740993'' = Fin 9007199254740992"
  by code_simp

lemma ToString_own_toString:
  "ToString (Array [String ''a'', Object [(''toString'', Number (Fin 1))]]) =
     Inl (TypeError ''Cannot convert object to primitive value'')"
  "ToString (Array [Null, Number (Fin 7), Object []]) = Inr '',7,[object Object]''"
  by code_simp+




section \<open>One polling cycle\<close>

lemma checkOperationStatus_body:
  "replies w 0 = Inr (Response (Inr status)) \<Longrightarrow>
   checkOperationStatus token operationId (sleep interval w) =
     (Inr status, advance 1 [SetTimeout interval, Fetch (status_request token operationId)] w)"
  by (simp add: checkOperationStatus_def fetch_json_def fetch_def sleep_def emit_def
      status_request_def API_BASE_def advance_def)

lemma waitForCompletion_unfold:
  "waitForCompletion token operationId maxAttempts interval w =
   checkOperationUntilComplete token operationId 1 (arg_or maxAttempts (Fin 30))
     (arg_or interval (Fin 5000))
     (advance 0 [ConsoleLog ''[API] Waiting for operation to complete...''] w)"
  by (simp add: waitForCompletion_def console_log_eq_advance)

text \<open>The budget is spent: the call fails before any timer or request.\<close>

lemma poll_timeout:
  "js_gt (Fin attempt) maxAttempts \<Longrightarrow>
   checkOperationUntilComplete token operationId attempt maxAttempts interval w =
     Some (Inl (Error (''Operation timed out after '' @ num_to_string maxAttempts @
                       '' attempts (ID: '' @ operationId @ '')'')),
           advance 0 [ConsoleLog []] w)"
  by (subst checkOperationUntilComplete.simps) (simp add: console_log_eq_advance)

text \<open>The operation is not complete yet: one cycle, then the next attempt.\<close>

lemma poll_pending:
  assumes "replies w 0 = Inr (Response (Inr status))" and "pending status"
    and "\<not> js_gt (Fin attempt) maxAttempts"
  shows "checkOperationUntilComplete token operationId attempt maxAttempts interval w =
         checkOperationUntilComplete token operationId (attempt + 1) maxAttempts interval
           (advance 1 (poll_cycle token operationId interval) w)"
  using assms
  by (subst checkOperationUntilComplete.simps)
     (auto simp: checkOperationStatus_body stdout_write_advance poll_cycle_def pending_def
           split: sum.splits)

text \<open>The operation is complete: the call returns it and stops.\<close>

lemma poll_completed:
  assumes "replies w 0 = Inr (Response (Inr status))"
    and "get_prop status ''operation'' = Inr operation" and "ToBoolean operation"
    and "get_prop operation ''is_completed'' = Inr is_completed" and "ToBoolean is_completed"
    and "\<not> js_gt (Fin attempt) maxAttempts"
  shows "checkOperationUntilComplete token operationId attempt maxAttempts interval w =
         Some (Inr operation,
               advance 1 [SetTimeout interval, Fetch (status_request token operationId),
                          ConsoleLog (check_mark @ '' [API] Operation completed successfully'')] w)"
  using assms
  by (subst checkOperationUntilComplete.simps)
     (simp add: checkOperationStatus_body console_log_advance)

section \<open>Runs of the polling loop\<close>

text \<open>
  \<open>n\<close> pending answers within the budget take the loop through \<open>n\<close> cycles. The induction
  is on \<open>n\<close>, with the attempt number and the world generalised, as both change in the
  recursive call.
\<close>

lemma poll_pending_run:
  assumes "\<forall>j<n. \<exists>status. replies w j = Inr (Response (Inr status)) \<and> pending status"
    and "\<not> js_gt (Fin (attempt + int n - 1)) maxAttempts"
  shows "checkOperationUntilComplete token operationId attempt maxAttempts interval w =
         checkOperationUntilComplete token operationId (attempt + int n) maxAttempts interval
           (advance n (concat (replicate n (poll_cycle token operationId interval))) w)"
  using assms
proof (induction n arbitrary: attempt w)
  case 0
  then show ?case by (simp add: advance_def)
next
  case (Suc n)
  let ?w1 = "advance 1 (poll_cycle token operationId interval) w"
  from Suc.prems(1) obtain status where
    first: "replies w 0 = Inr (Response (Inr status))" "pending status"
    by auto
  from Suc.prems(2) have now: "\<not> js_gt (Fin attempt) maxAttempts"
    by (auto dest: js_gt_mono [where j = "attempt + int (Suc n) - 1"])
  have rest: "\<forall>j<n. \<exists>status. replies ?w1 j = Inr (Response (Inr status)) \<and> pending status"
    using Suc.prems(1) by (simp add: advance_def)
  have later: "\<not> js_gt (Fin (attempt + 1 + int n - 1)) maxAttempts"
    using Suc.prems(2) by (simp add: add.commute add.left_commute)
  have "checkOperationUntilComplete token operationId attempt maxAttempts interval w =
        checkOperationUntilComplete token operationId (attempt + 1) maxAttempts interval ?w1"
    using first now by (rule poll_pending)
  also have "\<dots> = checkOperationUntilComplete token operationId (attempt + 1 + int n) maxAttempts
                     interval
                     (advance n (concat (replicate n (poll_cycle token operationId interval))) ?w1)"
    using rest later by (rule Suc.IH)
  finally show ?case
    by (simp add: advance_advance add.commute add.left_commute)
qed

text \<open>With a budget of \<open>n\<close> and \<open>n\<close> pending answers the call fails after \<open>n\<close> cycles.\<close>

lemma poll_never_completes:
  assumes "\<forall>j<n. \<exists>status. replies w j = Inr (Response (Inr status)) \<and> pending status"
  shows "checkOperationUntilComplete token operationId 1 (Fin (int n)) interval w =
         Some (Inl (Error (''Operation timed out after '' @ show_int (int n) @
                           '' attempts (ID: '' @ operationId @ '')'')),
               advance n (concat (replicate n (poll_cycle token operationId interval)) @
                          [ConsoleLog []]) w)"
proof -
  have "checkOperationUntilComplete token operationId 1 (Fin (int n)) interval w =
        checkOperationUntilComplete token operationId (1 + int n) (Fin (int n)) interval
          (advance n (concat (replicate n (poll_cycle token operationId interval))) w)"
    using assms by (rule poll_pending_run) simp
  also have "\<dots> = Some (Inl (Error (''Operation timed out after '' @ num_to_string (Fin (int n)) @
                           '' attempts (ID: '' @ operationId @ '')'')),
               advance 0 [ConsoleLog []]
                 (advance n (concat (replicate n (poll_cycle token operationId interval))) w))"
    by (rule poll_timeout) simp
  finally show ?thesis
    by (simp add: advance_advance)
qed

text \<open>
  With a finite budget the loop settles, whatever the network answers: the distance from
  the attempt number to the budget shrinks with every cycle (the counter is exact here;
  a double stops growing at \<open>2^53\<close>). A budget that no attempt exceeds (\<^verbatim>\<open>Infinity\<close>) can
  keep it polling for ever.
\<close>

lemma poll_settles:
  "\<exists>r. checkOperationUntilComplete token operationId attempt (Fin budget) interval w = Some r"
proof (induction "nat (budget + 1 - attempt)" arbitrary: attempt w)
  case 0
  then have "js_gt (Fin attempt) (Fin budget)"
    by simp
  then show ?case
    by (simp add: poll_timeout)
next
  case (Suc k)
  then have within: "\<not> js_gt (Fin attempt) (Fin budget)"
    by simp
  from Suc have next_call: "k = nat (budget + 1 - (attempt + 1))"
    by simp
  have step: "\<exists>r. checkOperationUntilComplete token operationId (attempt + 1) (Fin budget)
                     interval w' = Some r" for w'
    using next_call by (rule Suc.hyps(1))
  show ?case
    using within step
    by (subst checkOperationUntilComplete.simps) (auto split: prod.splits sum.splits)
qed

lemma waitForCompletion_settles:
  assumes "maxAttempts \<noteq> ArgNumber PosInf"
  shows "\<exists>r. waitForCompletion token operationId maxAttempts interval w = Some r"
proof (cases "arg_or maxAttempts (Fin 30)")
  case (Fin budget)
  then show ?thesis
    using poll_settles [of token operationId 1 budget]
    by (simp only: waitForCompletion_unfold)
next
  case NegInf
  then show ?thesis
    by (simp add: waitForCompletion_unfold poll_timeout)
next
  case NaN
  then show ?thesis
    by (cases maxAttempts) (auto split: if_splits)
next
  case PosInf
  with assms show ?thesis
    by (cases maxAttempts) (auto split: if_splits)
qed

lemma show_int_3: "show_int 3 = ''3''"
  by code_simp

lemma show_int_30: "show_int 30 = ''30''"
  by code_simp

section \<open>Requests of the action executor\<close>



section \<open>Claims about the completion waiter\<close>

text \<open>
  C1. With \<^verbatim>\<open>maxAttempts = 3\<close> and a status endpoint that always answers
  \<^verbatim>\<open>{operation: {is_completed: false}}\<close>, \<^verbatim>\<open>waitForCompletion\<close> settles, and it fails: the
  error is the time-out error of the source (the \<open>TimeoutError\<close> of the specification),
  whose message names the attempt count 3 and the operation id. The trace shows exactly
  three cycles, each a timer of the configured interval, one status request and one
  progress dot; the budget is tested before a cycle starts, so the empty line of the
  failure follows the third dot at once and no fourth request is sent.
\<close>

theorem waitForCompletion_times_out:
  assumes "\<forall>k. replies w k =
             Inr (Response (Inr (Object [(''operation'', Object [(''is_completed'', Bool False)])])))"
  shows "\<exists>w'. waitForCompletion token operationId (ArgNumber (Fin 3)) interval w =
                Some (Inl (Error (''Operation timed out after 3 attempts (ID: '' @ operationId @ '')'')), w')
             \<and> trace w' = trace w @ [ConsoleLog ''[API] Waiting for operation to complete...''] @
                  concat (replicate 3 (poll_cycle token operationId (arg_or interval (Fin 5000)))) @
                  [ConsoleLog []]
             \<and> fetches (trace w') = fetches (trace w) @ replicate 3 (status_request token operationId)"
proof -
  let ?w1 = "advance 0 [ConsoleLog ''[API] Waiting for operation to complete...''] w"
  let ?iv = "arg_or interval (Fin 5000)"
  let ?w2 = "advance 3 (concat (replicate 3 (poll_cycle token operationId ?iv)) @ [ConsoleLog []]) ?w1"
  have "\<forall>j<3. \<exists>status. replies ?w1 j = Inr (Response (Inr status)) \<and> pending status"
    using assms by (simp add: replies_advance pending_def)
  then have "checkOperationUntilComplete token operationId 1 (Fin (int 3)) ?iv ?w1 =
         Some (Inl (Error (''Operation timed out after '' @ show_int (int 3) @
                           '' attempts (ID: '' @ operationId @ '')'')), ?w2)"
    by (rule poll_never_completes)
  then have run: "waitForCompletion token operationId (ArgNumber (Fin 3)) interval w =
      Some (Inl (Error (''Operation timed out after 3 attempts (ID: '' @ operationId @ '')'')), ?w2)"
    by (simp add: waitForCompletion_unfold show_int_3)
  have "fetches (trace ?w2) = fetches (trace w) @ replicate 3 (status_request token operationId)"
    by (simp only: trace_advance fetches_append fetches_cycles) simp
  with run show ?thesis
    by (simp add: trace_advance)
qed

theorem waitForCompletion_times_out_witness:
  "map_option fst (waitForCompletion ''tok'' ''op-1'' (ArgNumber (Fin 3)) (ArgNumber (Fin 250))
      (answering (Object [(''operation'', Object [(''is_completed'', Bool False)])])))
     = Some (Inl (Error ''Operation timed out after 3 attempts (ID: op-1)''))
   \<and> map_option (fetches \<circ> trace \<circ> snd)
       (waitForCompletion ''tok'' ''op-1'' (ArgNumber (Fin 3)) (ArgNumber (Fin 250))
          (answering (Object [(''operation'', Object [(''is_completed'', Bool False)])])))
     = Some [status_request ''tok'' ''op-1'', status_request ''tok'' ''op-1'',
             status_request ''tok'' ''op-1'']"
  using waitForCompletion_times_out
          [of "answering (Object [(''operation'', Object [(''is_completed'', Bool False)])])"
              "''tok''" "''op-1''" "ArgNumber (Fin 250)"]
  by (auto simp: answering_def numeral_3_eq_3)

text \<open>
  C2. When the first \<open>n\<close> answers leave the operation pending and answer \<open>n + 1\<close> carries
  an \<^verbatim>\<open>operation\<close> whose \<^verbatim>\<open>is_completed\<close> is \<^verbatim>\<open>true\<close>, and attempt \<open>n + 1\<close> is within the budget
  (whatever is left of it), \<^verbatim>\<open>waitForCompletion\<close> returns that operation object, not the
  whole response. It has then sent exactly \<open>n + 1\<close> status requests, and the last events of
  the trace are the timer, the request and the success line of that attempt: nothing is
  fetched afterwards.
\<close>

theorem waitForCompletion_returns_operation:
  assumes "\<forall>j<n. \<exists>status. replies w j = Inr (Response (Inr status)) \<and> pending status"
    and "replies w n = Inr (Response (Inr status))"
    and "get_prop status ''operation'' = Inr operation"
    and "get_prop operation ''is_completed'' = Inr (Bool True)"
    and "\<not> js_gt (Fin (int n + 1)) (arg_or maxAttempts (Fin 30))"
  shows "\<exists>w'. waitForCompletion token operationId maxAttempts interval w = Some (Inr operation, w')
             \<and> trace w' = trace w @ [ConsoleLog ''[API] Waiting for operation to complete...''] @
                  concat (replicate n (poll_cycle token operationId (arg_or interval (Fin 5000)))) @
                  [SetTimeout (arg_or interval (Fin 5000)),
                   Fetch (status_request token operationId),
                   ConsoleLog (check_mark @ '' [API] Operation completed successfully'')]
             \<and> fetches (trace w') =
                 fetches (trace w) @ replicate (n + 1) (status_request token operationId)"
proof -
  let ?w1 = "advance 0 [ConsoleLog ''[API] Waiting for operation to complete...''] w"
  let ?iv = "arg_or interval (Fin 5000)"
  let ?m = "arg_or maxAttempts (Fin 30)"
  let ?w2 = "advance n (concat (replicate n (poll_cycle token operationId ?iv))) ?w1"
  let ?w3 = "advance 1 [SetTimeout ?iv, Fetch (status_request token operationId),
                        ConsoleLog (check_mark @ '' [API] Operation completed successfully'')] ?w2"
  have truthy: "ToBoolean operation"
    using assms(4) by (rule get_prop_truthy_object) simp
  have "\<forall>j<n. \<exists>status. replies ?w1 j = Inr (Response (Inr status)) \<and> pending status"
    using assms(1) by (simp add: replies_advance)
  moreover have "\<not> js_gt (Fin (1 + int n - 1)) ?m"
    using assms(5) by (auto dest: js_gt_mono [where j = "int n + 1"])
  ultimately have "checkOperationUntilComplete token operationId 1 ?m ?iv ?w1 =
      checkOperationUntilComplete token operationId (1 + int n) ?m ?iv ?w2"
    by (rule poll_pending_run)
  also have "\<dots> = Some (Inr operation, ?w3)"
  proof (rule poll_completed [where status = status and is_completed = "Bool True"])
    show "replies ?w2 0 = Inr (Response (Inr status))"
      using assms(2) by (simp add: replies_advance)
    show "\<not> js_gt (Fin (1 + int n)) ?m"
      using assms(5) by (simp add: add.commute)
  qed (use assms(3,4) truthy in simp_all)
  finally have run:
    "waitForCompletion token operationId maxAttempts interval w = Some (Inr operation, ?w3)"
    by (simp add: waitForCompletion_unfold)
  have "fetches (trace ?w3) =
        fetches (trace w) @ replicate (n + 1) (status_request token operationId)"
    by (simp add: trace_advance fetches_append fetches_cycles replicate_append_same)
  with run show ?thesis
    by (simp add: trace_advance)
qed

text \<open>Completion on attempt 2 of a possible 30: two requests, no third.\<close>

theorem waitForCompletion_returns_operation_witness:
  "map_option fst
     (waitForCompletion ''tok'' ''op-1'' ArgUndefined ArgUndefined
        (scripted [Object [(''operation'', Object [(''is_completed'', Bool False)])]]
                  (Object [(''operation'', Object [(''is_completed'', Bool True),
                                                   (''message'', String ''done'')])])))
   = Some (Inr (Object [(''is_completed'', Bool True), (''message'', String ''done'')]))
   \<and> map_option (fetches \<circ> trace \<circ> snd)
     (waitForCompletion ''tok'' ''op-1'' ArgUndefined ArgUndefined
        (scripted [Object [(''operation'', Object [(''is_completed'', Bool False)])]]
                  (Object [(''operation'', Object [(''is_completed'', Bool True),
                                                   (''message'', String ''done'')])])))
   = Some [status_request ''tok'' ''op-1'', status_request ''tok'' ''op-1'']"
  using waitForCompletion_returns_operation
     [of 1 "scripted [Object [(''operation'', Object [(''is_completed'', Bool False)])]]
                  (Object [(''operation'', Object [(''is_completed'', Bool True),
                                                   (''message'', String ''done'')])])"
         "Object [(''operation'', Object [(''is_completed'', Bool True), (''message'', String ''done'')])]"
         "Object [(''is_completed'', Bool True), (''message'', String ''done'')]"
         ArgUndefined "''tok''" "''op-1''" ArgUndefined]
  by (auto simp: scripted_def pending_def)

text \<open>
  C3, as stated, fails on the status body \<^verbatim>\<open>null\<close>: it has no \<^verbatim>\<open>operation\<close> field, and the
  read \<^verbatim>\<open>status.operation\<close> throws a \<^verbatim>\<open>TypeError\<close>, so the call fails on that response after
  one request instead of polling on.
\<close>

theorem waitForCompletion_null_status_counterexample:
  "map_option fst (waitForCompletion ''tok'' ''op-1'' ArgUndefined ArgUndefined (answering Null))
     = Some (Inl (cannot_read ''null'' ''operation''))
   \<and> map_option (fetches \<circ> trace \<circ> snd)
       (waitForCompletion ''tok'' ''op-1'' ArgUndefined ArgUndefined (answering Null))
     = Some [status_request ''tok'' ''op-1'']"
  by (simp add: waitForCompletion_def checkOperationUntilComplete.simps checkOperationStatus_def
      fetch_json_def fetch_def sleep_def emit_def console_log_def answering_def
      status_request_def API_BASE_def)

text \<open>
  C3, amended. For every status body other than \<^verbatim>\<open>null\<close> that has no \<^verbatim>\<open>operation\<close> field
  (the read \<^verbatim>\<open>status.operation\<close> yields \<^verbatim>\<open>undefined\<close>), a cycle within the budget does not
  fail: the loop writes its progress dot and goes on with the attempt counter incremented,
  in the world one request later. That is what it does on
  \<^verbatim>\<open>{operation: {is_completed: false}}\<close>: the call has the same outcome when this body is
  put in place of the answer.
\<close>

theorem poll_missing_operation:
  assumes "replies w 0 = Inr (Response (Inr status))"
    and "get_prop status ''operation'' = Inr Undefined"
    and "\<not> js_gt (Fin attempt) maxAttempts"
  shows "checkOperationUntilComplete token operationId attempt maxAttempts interval w =
         checkOperationUntilComplete token operationId (attempt + 1) maxAttempts interval
           (advance 1 (poll_cycle token operationId interval) w)
       \<and> checkOperationUntilComplete token operationId attempt maxAttempts interval w =
         checkOperationUntilComplete token operationId attempt maxAttempts interval
           (w\<lparr>replies := (replies w)
                (0 := Inr (Response (Inr (Object [(''operation'',
                                                   Object [(''is_completed'', Bool False)])]))))\<rparr>)"
proof -
  let ?nc = "Object [(''operation'', Object [(''is_completed'', Bool False)])]"
  let ?w' = "w\<lparr>replies := (replies w)(0 := Inr (Response (Inr ?nc)))\<rparr>"
  have "pending status"
    using assms(2) by (simp add: pending_def)
  with assms(1) have here:
    "checkOperationUntilComplete token operationId attempt maxAttempts interval w =
     checkOperationUntilComplete token operationId (attempt + 1) maxAttempts interval
       (advance 1 (poll_cycle token operationId interval) w)"
    using assms(3) by (rule poll_pending)
  have "replies ?w' 0 = Inr (Response (Inr ?nc))" and "pending ?nc"
    by (simp_all add: pending_def)
  then have "checkOperationUntilComplete token operationId attempt maxAttempts interval ?w' =
         checkOperationUntilComplete token operationId (attempt + 1) maxAttempts interval
           (advance 1 (poll_cycle token operationId interval) ?w')"
    using assms(3) by (rule poll_pending)
  moreover have "advance 1 (poll_cycle token operationId interval) ?w' =
                 advance 1 (poll_cycle token operationId interval) w"
    by (simp add: advance_def)
  ultimately show ?thesis
    using here by simp
qed

text \<open>An answer without \<^verbatim>\<open>operation\<close>, then a completed one: two requests, and success.\<close>

theorem poll_missing_operation_witness:
  "map_option fst
     (checkOperationUntilComplete ''tok'' ''op-1'' 1 (Fin 30) (Fin 5000)
        (scripted [Object [(''message'', String ''queued'')]]
                  (Object [(''operation'', Object [(''is_completed'', Bool True)])])))
   = Some (Inr (Object [(''is_completed'', Bool True)]))
   \<and> map_option (fetches \<circ> trace \<circ> snd)
     (checkOperationUntilComplete ''tok'' ''op-1'' 1 (Fin 30) (Fin 5000)
        (scripted [Object [(''message'', String ''queued'')]]
                  (Object [(''operation'', Object [(''is_completed'', Bool True)])])))
   = Some [status_request ''tok'' ''op-1'', status_request ''tok'' ''op-1'']"
proof -
  let ?w = "scripted [Object [(''message'', String ''queued'')]]
                  (Object [(''operation'', Object [(''is_completed'', Bool True)])])"
  have "checkOperationUntilComplete ''tok'' ''op-1'' 1 (Fin 30) (Fin 5000) ?w =
        checkOperationUntilComplete ''tok'' ''op-1'' (1 + 1) (Fin 30) (Fin 5000)
          (advance 1 (poll_cycle ''tok'' ''op-1'' (Fin 5000)) ?w)"
    using poll_missing_operation
            [of ?w "Object [(''message'', String ''queued'')]" 1 "Fin 30" "''tok''" "''op-1''" "Fin 5000"]
    by (simp add: scripted_def)
  also have "\<dots> = Some (Inr (Object [(''is_completed'', Bool True)]),
         advance 1 [SetTimeout (Fin 5000), Fetch (status_request ''tok'' ''op-1''),
                    ConsoleLog (check_mark @ '' [API] Operation completed successfully'')]
           (advance 1 (poll_cycle ''tok'' ''op-1'' (Fin 5000)) ?w))"
    by (rule poll_completed
          [where status = "Object [(''operation'', Object [(''is_completed'', Bool True)])]"
             and is_completed = "Bool True"])
       (simp_all add: replies_advance scripted_def)
  finally show ?thesis
    by (simp add: trace_advance fetches_append poll_cycle_def scripted_def)
qed

text \<open>
  C10. A falsy \<^verbatim>\<open>maxAttempts\<close> (\<^verbatim>\<open>undefined\<close>, \<^verbatim>\<open>null\<close>, \<^verbatim>\<open>NaN\<close> or \<^verbatim>\<open>0\<close>, see
  \<open>arg_falsy_cases\<close>) is replaced by 30, and a falsy \<^verbatim>\<open>interval\<close> by 5000: the call is the
  call with the default written out. In particular, with both arguments falsy (an
  explicit 0, say) and thirty pending answers, the call polls thirty times, each time
  after a timer of 5000 ms, and then fails naming 30 attempts.
\<close>

theorem waitForCompletion_falsy_defaults:
  "(\<not> arg_truthy maxAttempts \<longrightarrow>
      waitForCompletion token operationId maxAttempts interval w =
      waitForCompletion token operationId (ArgNumber (Fin 30)) interval w)
   \<and> (\<not> arg_truthy interval \<longrightarrow>
      waitForCompletion token operationId maxAttempts interval w =
      waitForCompletion token operationId maxAttempts (ArgNumber (Fin 5000)) w)
   \<and> (\<not> arg_truthy maxAttempts \<and> \<not> arg_truthy interval \<and>
      (\<forall>j<30. \<exists>status. replies w j = Inr (Response (Inr status)) \<and> pending status) \<longrightarrow>
      (\<exists>w'. waitForCompletion token operationId maxAttempts interval w =
              Some (Inl (Error (''Operation timed out after 30 attempts (ID: '' @ operationId @ '')'')), w')
           \<and> trace w' = trace w @ [ConsoleLog ''[API] Waiting for operation to complete...''] @
                concat (replicate 30 (poll_cycle token operationId (Fin 5000))) @
                [ConsoleLog []]))"
proof (intro conjI impI)
  assume "\<not> arg_truthy maxAttempts"
  then show "waitForCompletion token operationId maxAttempts interval w =
      waitForCompletion token operationId (ArgNumber (Fin 30)) interval w"
    by (simp add: waitForCompletion_def arg_or_falsy)
next
  assume "\<not> arg_truthy interval"
  then show "waitForCompletion token operationId maxAttempts interval w =
      waitForCompletion token operationId maxAttempts (ArgNumber (Fin 5000)) w"
    by (simp add: waitForCompletion_def arg_or_falsy)
next
  let ?w1 = "advance 0 [ConsoleLog ''[API] Waiting for operation to complete...''] w"
  let ?w2 = "advance 30 (concat (replicate 30 (poll_cycle token operationId (Fin 5000))) @
                         [ConsoleLog []]) ?w1"
  assume falsy: "\<not> arg_truthy maxAttempts \<and> \<not> arg_truthy interval \<and>
      (\<forall>j<30. \<exists>status. replies w j = Inr (Response (Inr status)) \<and> pending status)"
  then have "\<forall>j<30. \<exists>status. replies ?w1 j = Inr (Response (Inr status)) \<and> pending status"
    by (simp add: replies_advance)
  then have "checkOperationUntilComplete token operationId 1 (Fin (int 30)) (Fin 5000) ?w1 =
         Some (Inl (Error (''Operation timed out after '' @ show_int (int 30) @
                           '' attempts (ID: '' @ operationId @ '')'')), ?w2)"
    by (rule poll_never_completes)
  with falsy have "waitForCompletion token operationId maxAttempts interval w =
      Some (Inl (Error (''Operation timed out after 30 attempts (ID: '' @ operationId @ '')'')), ?w2)"
    by (simp add: waitForCompletion_unfold arg_or_falsy show_int_30)
  then show "\<exists>w'. waitForCompletion token operationId maxAttempts interval w =
              Some (Inl (Error (''Operation timed out after 30 attempts (ID: '' @ operationId @ '')'')), w')
           \<and> trace w' = trace w @ [ConsoleLog ''[API] Waiting for operation to complete...''] @
                concat (replicate 30 (poll_cycle token operationId (Fin 5000))) @
                [ConsoleLog []]"
    by (simp add: trace_advance)
qed

text \<open>
  With both arguments 0 and an operation that never completes: thirty cycles, each with a
  timer of 5000 ms, then the failure naming 30 attempts.
\<close>

theorem waitForCompletion_falsy_defaults_witness:
  "\<not> arg_truthy (ArgNumber (Fin 0))
   \<and> map_option fst (waitForCompletion ''tok'' ''op-1'' (ArgNumber (Fin 0)) (ArgNumber (Fin 0))
        (answering (Object [(''operation'', Object [(''is_completed'', Bool False)])])))
      = Some (Inl (Error ''Operation timed out after 30 attempts (ID: op-1)''))
   \<and> map_option (trace \<circ> snd)
        (waitForCompletion ''tok'' ''op-1'' (ArgNumber (Fin 0)) (ArgNumber (Fin 0))
           (answering (Object [(''operation'', Object [(''is_completed'', Bool False)])])))
      = Some ([ConsoleLog ''[API] Waiting for operation to complete...''] @
              concat (replicate 30 (poll_cycle ''tok'' ''op-1'' (Fin 5000))) @ [ConsoleLog []])
   \<and> waitForCompletion ''tok'' ''op-1'' (ArgNumber (Fin 0)) (ArgNumber (Fin 0))
        (answering (Object [(''operation'', Object [(''is_completed'', Bool False)])]))
     = waitForCompletion ''tok'' ''op-1'' (ArgNumber (Fin 30)) (ArgNumber (Fin 0))
        (answering (Object [(''operation'', Object [(''is_completed'', Bool False)])]))"
proof -
  let ?w = "answering (Object [(''operation'', Object [(''is_completed'', Bool False)])])"
  note inst = waitForCompletion_falsy_defaults
                [of "ArgNumber (Fin 0)" "''tok''" "''op-1''" "ArgNumber (Fin 0)" ?w]
  have falsy: "\<not> arg_truthy (ArgNumber (Fin 0))"
    by simp
  have answers: "\<forall>j<30. \<exists>status. replies ?w j = Inr (Response (Inr status)) \<and> pending status"
    by (simp add: answering_def pending_def)
  from inst falsy have same:
    "waitForCompletion ''tok'' ''op-1'' (ArgNumber (Fin 0)) (ArgNumber (Fin 0)) ?w =
     waitForCompletion ''tok'' ''op-1'' (ArgNumber (Fin 30)) (ArgNumber (Fin 0)) ?w"
    by blast
  from inst falsy answers obtain w' where
    "waitForCompletion ''tok'' ''op-1'' (ArgNumber (Fin 0)) (ArgNumber (Fin 0)) ?w =
       Some (Inl (Error (''Operation timed out after 30 attempts (ID: '' @ ''op-1'' @ '')'')), w')"
    and "trace w' = trace ?w @ [ConsoleLog ''[API] Waiting for operation to complete...''] @
           concat (replicate 30 (poll_cycle ''tok'' ''op-1'' (Fin 5000))) @ [ConsoleLog []]"
    by blast
  with falsy same show ?thesis
    by (simp add: answering_def)
qed

section \<open>Claims about the action executor\<close>

text \<open>
  C4. For every action response whose \<^verbatim>\<open>status\<close> is \<^verbatim>\<open>true\<close>, \<^verbatim>\<open>executeVarnishAction\<close> returns
  \<^verbatim>\<open>{completed: true}\<close>, whatever else the body holds; and for every response whose
  \<^verbatim>\<open>status\<close> is \<^verbatim>\<open>false\<close> it fails, whatever else the body holds: with the operation error
  of the source or, when the message cannot be printed, with the \<^verbatim>\<open>TypeError\<close> of that
  conversion. The source tests the failure flag first; the two tests are strict
  comparisons of one field with \<^verbatim>\<open>false\<close> and with \<^verbatim>\<open>true\<close>, so the flag alone decides
  between success and failure.
\<close>

theorem executeVarnishAction_status_flag:
  assumes "replies w 0 = Inr (Response (Inr data))"
  shows "(get_prop data ''status'' = Inr (Bool True) \<longrightarrow>
            fst (executeVarnishAction token serverId action w) =
              Inr (Object [(''completed'', Bool True)]))
       \<and> (get_prop data ''status'' = Inr (Bool False) \<longrightarrow>
            (\<exists>printed. fst (executeVarnishAction token serverId action w) =
                      Inl (Error (''Operation failed: '' @ printed)))
            \<or> fst (executeVarnishAction token serverId action w) =
                 Inl (TypeError ''Cannot convert object to primitive value''))"
proof (intro conjI impI)
  assume "get_prop data ''status'' = Inr (Bool True)"
  with assms show "fst (executeVarnishAction token serverId action w) =
                     Inr (Object [(''completed'', Bool True)])"
    by (simp add: executeVarnishAction_def Let_def fetch_json_def fetch_def console_log_def
        emit_def)
next
  assume flag: "get_prop data ''status'' = Inr (Bool False)"
  then have "data \<noteq> Null" and "data \<noteq> Undefined"
    by (auto dest: get_prop_Inr_defined)
  then obtain message where message: "get_prop data ''message'' = Inr message"
    using get_prop_total by blast
  let ?errorMsg = "js_or message (String ''Unknown error'')"
  show "(\<exists>printed. fst (executeVarnishAction token serverId action w) =
                  Inl (Error (''Operation failed: '' @ printed)))
        \<or> fst (executeVarnishAction token serverId action w) =
             Inl (TypeError ''Cannot convert object to primitive value'')"
  proof (cases "ToString ?errorMsg")
    case (Inl e)
    then have "e = TypeError ''Cannot convert object to primitive value''"
      by (rule ToString_error)
    with Inl assms flag message show ?thesis
      by (simp add: executeVarnishAction_def Let_def fetch_json_def fetch_def console_log_def
          emit_def)
  next
    case (Inr printed)
    with assms flag message show ?thesis
      by (simp add: executeVarnishAction_def Let_def fetch_json_def fetch_def console_log_def
          emit_def)
  qed
qed

text \<open>
  A success flag next to a message and an operation; a failure flag next to
  \<^verbatim>\<open>completed: true\<close>.
\<close>

theorem executeVarnishAction_status_flag_witness:
  "fst (executeVarnishAction ''tok'' ''12'' ''flush_all''
          (answering (Object [(''message'', String ''Unknown error''),
                              (''operation'', Object [(''is_completed'', Bool False)]),
                              (''status'', Bool True)])))
     = Inr (Object [(''completed'', Bool True)])
   \<and> fst (executeVarnishAction ''tok'' ''12'' ''flush_all''
          (answering (Object [(''completed'', Bool True), (''status'', Bool False)])))
     = Inl (Error ''Operation failed: Unknown error'')"
  using executeVarnishAction_status_flag
     [of "answering (Object [(''message'', String ''Unknown error''),
                             (''operation'', Object [(''is_completed'', Bool False)]),
                             (''status'', Bool True)])"
         "Object [(''message'', String ''Unknown error''),
                  (''operation'', Object [(''is_completed'', Bool False)]),
                  (''status'', Bool True)]"
         "''tok''" "''12''" "''flush_all''"]
    executeVarnishAction_status_flag
     [of "answering (Object [(''completed'', Bool True), (''status'', Bool False)])"
         "Object [(''completed'', Bool True), (''status'', Bool False)]"
         "''tok''" "''12''" "''flush_all''"]
  by (simp add: answering_def executeVarnishAction_def Let_def fetch_json_def fetch_def
      console_log_def emit_def js_or_def)

text \<open>
  C5, as stated, fails on \<^verbatim>\<open>{status: false, message: ""}\<close>: the \<^verbatim>\<open>message\<close> field is present
  and is the empty string, yet the error does not carry it but the literal
  \<^verbatim>\<open>Unknown error\<close>, because \<^verbatim>\<open>data.message || 'Unknown error'\<close> tests truthiness, not
  presence.
\<close>

theorem executeVarnishAction_empty_message_counterexample:
  "get_prop (Object [(''status'', Bool False), (''message'', String [])]) ''message''
     = Inr (String [])
   \<and> fst (executeVarnishAction ''tok'' ''12'' ''flush_all''
            (answering (Object [(''status'', Bool False), (''message'', String [])])))
     = Inl (Error ''Operation failed: Unknown error'')
   \<and> fst (executeVarnishAction ''tok'' ''12'' ''flush_all''
            (answering (Object [(''status'', Bool False), (''message'', String [])])))
     \<noteq> Inl (Error (''Operation failed: '' @ []))"
  by (simp add: answering_def executeVarnishAction_def Let_def fetch_json_def fetch_def
      console_log_def emit_def js_or_def)

text \<open>
  C5, amended. For every action response whose \<^verbatim>\<open>status\<close> is \<^verbatim>\<open>false\<close>,
  \<^verbatim>\<open>executeVarnishAction\<close> fails. When the \<^verbatim>\<open>message\<close> field is absent or falsy, the error is
  the operation error of the source with the message \<^verbatim>\<open>Operation failed: Unknown error\<close>.
  When the field is truthy, the message is \<^verbatim>\<open>Operation failed: \<close> followed by the field as
  a template literal prints it, so a non-empty string is carried as it is; and when the
  field cannot be printed (an object with a property of its own named \<^verbatim>\<open>toString\<close>, or
  an array holding one) the call fails with the \<^verbatim>\<open>TypeError\<close> of that conversion instead.
\<close>

theorem executeVarnishAction_failure_flag:
  assumes "replies w 0 = Inr (Response (Inr data))"
    and "get_prop data ''status'' = Inr (Bool False)"
    and "get_prop data ''message'' = Inr message"
  shows "fst (executeVarnishAction token serverId action w) =
           (if ToBoolean message
            then (case ToString message of
                    Inl e \<Rightarrow> Inl e
                  | Inr printed \<Rightarrow> Inl (Error (''Operation failed: '' @ printed)))
            else Inl (Error ''Operation failed: Unknown error''))
       \<and> (\<forall>s. message = String s \<and> s \<noteq> [] \<longrightarrow>
            fst (executeVarnishAction token serverId action w) =
              Inl (Error (''Operation failed: '' @ s)))"
  using assms
  by (auto simp: executeVarnishAction_def Let_def fetch_json_def fetch_def console_log_def
      emit_def js_or_def split: sum.splits)

text \<open>
  A message that is carried, a missing message, and a message that cannot be printed.
\<close>

theorem executeVarnishAction_failure_flag_witness:
  "fst (executeVarnishAction ''tok'' ''12'' ''flush_all''
          (answering (Object [(''status'', Bool False), (''message'', String ''Server not found'')])))
     = Inl (Error ''Operation failed: Server not found'')
   \<and> fst (executeVarnishAction ''tok'' ''12'' ''flush_all''
          (answering (Object [(''status'', Bool False)])))
     = Inl (Error ''Operation failed: Unknown error'')
   \<and> fst (executeVarnishAction ''tok'' ''12'' ''flush_all''
          (answering (Object [(''status'', Bool False),
                              (''message'', Object [(''toString'', Number (Fin 1))])])))
     = Inl (TypeError ''Cannot convert object to primitive value'')"
  using executeVarnishAction_failure_flag
     [of "answering (Object [(''status'', Bool False), (''message'', String ''Server not found'')])"
         "Object [(''status'', Bool False), (''message'', String ''Server not found'')]"
         "String ''Server not found''" "''tok''" "''12''" "''flush_all''"]
    executeVarnishAction_failure_flag
     [of "answering (Object [(''status'', Bool False)])"
         "Object [(''status'', Bool False)]" Undefined "''tok''" "''12''" "''flush_all''"]
    executeVarnishAction_failure_flag
     [of "answering (Object [(''status'', Bool False),
                             (''message'', Object [(''toString'', Number (Fin 1))])])"
         "Object [(''status'', Bool False), (''message'', Object [(''toString'', Number (Fin 1))])]"
         "Object [(''toString'', Number (Fin 1))]" "''tok''" "''12''" "''flush_all''"]
  by (simp add: answering_def)

text \<open>
  C6, as stated, fails on the action body \<^verbatim>\<open>null\<close>: it holds neither \<^verbatim>\<open>status: true\<close> nor
  \<^verbatim>\<open>status: false\<close>, and the read \<^verbatim>\<open>data.status\<close> throws a \<^verbatim>\<open>TypeError\<close>, which is not the
  unexpected-response error and does not carry the body.
\<close>

theorem executeVarnishAction_null_body_counterexample:
  "fst (executeVarnishAction ''tok'' ''12'' ''flush_all'' (answering Null))
     = Inl (cannot_read ''null'' ''status'')
   \<and> fst (executeVarnishAction ''tok'' ''12'' ''flush_all'' (answering Null))
     \<noteq> Inl (Error (''Unexpected response: '' @ json_text Null))"
  by (simp add: answering_def executeVarnishAction_def Let_def fetch_json_def fetch_def
      console_log_def emit_def cannot_read_def)

text \<open>
  C6, amended. For every action body other than \<^verbatim>\<open>null\<close> (so that the read of \<^verbatim>\<open>status\<close>
  yields a value) whose \<^verbatim>\<open>status\<close> is neither \<^verbatim>\<open>true\<close> nor \<^verbatim>\<open>false\<close>, be it missing or
  something like \<^verbatim>\<open>"pending"\<close>, \<^verbatim>\<open>executeVarnishAction\<close> fails with the unexpected-response
  error of the source, whose message is \<^verbatim>\<open>Unexpected response: \<close> followed by the body as
  \<^verbatim>\<open>JSON.stringify\<close> prints it.
\<close>

theorem executeVarnishAction_unexpected:
  assumes "replies w 0 = Inr (Response (Inr data))"
    and "get_prop data ''status'' = Inr status"
    and "status \<noteq> Bool True" and "status \<noteq> Bool False"
  shows "fst (executeVarnishAction token serverId action w) =
           Inl (Error (''Unexpected response: '' @ json_text data))"
proof -
  from assms(2) have "data \<noteq> Undefined"
    by (auto dest: get_prop_Inr_defined)
  then have "stringified data = json_text data"
    by (rule stringify_defined)
  with assms show ?thesis
    by (simp add: executeVarnishAction_def Let_def fetch_json_def fetch_def console_log_def
        emit_def)
qed

theorem executeVarnishAction_unexpected_witness:
  "fst (executeVarnishAction ''tok'' ''12'' ''flush_all''
          (answering (Object [(''status'', String ''pending'')])))
     = Inl (Error (''Unexpected response: {'' @ [CHR 0x22] @ ''status'' @ [CHR 0x22] @ '':'' @
                   [CHR 0x22] @ ''pending'' @ [CHR 0x22] @ ''}''))
   \<and> fst (executeVarnishAction ''tok'' ''12'' ''flush_all'' (answering (Object [])))
     = Inl (Error ''Unexpected response: {}'')"
  using executeVarnishAction_unexpected
     [of "answering (Object [(''status'', String ''pending'')])"
         "Object [(''status'', String ''pending'')]" "String ''pending''"
         "''tok''" "''12''" "''flush_all''"]
    executeVarnishAction_unexpected
     [of "answering (Object [])" "Object []" Undefined "''tok''" "''12''" "''flush_all''"]
  by (simp add: answering_def quote_json_def quote_char_def)




section \<open>Claims about the authenticator\<close>

text \<open>
  C7. For every token response whose body holds a non-empty \<^verbatim>\<open>access_token\<close> (more
  generally a truthy one), \<^verbatim>\<open>getAccessToken\<close> returns exactly the value of that field.
\<close>

theorem getAccessToken_returns_token:
  assumes "replies w 0 = Inr (Response (Inr data))"
    and "get_prop data ''access_token'' = Inr access_token"
    and "ToBoolean access_token"
  shows "fst (getAccessToken email apiKey w) = Inr access_token"
  using assms
  by (simp add: getAccessToken_def fetch_json_def fetch_def console_log_def emit_def)

theorem getAccessToken_returns_token_witness:
  "ToBoolean (String ''abc123'')
   \<and> fst (getAccessToken ''user@example.com'' ''key''
          (answering (Object [(''access_token'', String ''abc123'')])))
     = Inr (String ''abc123'')"
  using getAccessToken_returns_token
          [of "answering (Object [(''access_token'', String ''abc123'')])"
              "Object [(''access_token'', String ''abc123'')]" "String ''abc123''"
              "''user@example.com''" "''key''"]
  by (simp add: answering_def)

text \<open>
  C8, as stated, fails on the token body \<^verbatim>\<open>null\<close>: it has no token field, and the read
  \<^verbatim>\<open>data.access_token\<close> throws a \<^verbatim>\<open>TypeError\<close>, which is not the authentication error and
  does not carry the body.
\<close>

theorem getAccessToken_null_body_counterexample:
  "fst (getAccessToken ''user@example.com'' ''key'' (answering Null))
     = Inl (cannot_read ''null'' ''access_token'')
   \<and> fst (getAccessToken ''user@example.com'' ''key'' (answering Null))
     \<noteq> Inl (Error (''Failed to obtain access token: '' @ json_text Null))"
  by (simp add: getAccessToken_def fetch_json_def fetch_def console_log_def emit_def
      answering_def cannot_read_def)

text \<open>
  C8, amended. For every token body other than \<^verbatim>\<open>null\<close> (so that the read of
  \<^verbatim>\<open>access_token\<close> yields a value) in which the token field is missing or falsy (an empty
  object, a \<^verbatim>\<open>null\<close> token, an empty string), \<^verbatim>\<open>getAccessToken\<close> fails with the
  authentication error of the source, whose message is \<^verbatim>\<open>Failed to obtain access token: \<close>
  followed by the body as \<^verbatim>\<open>JSON.stringify\<close> prints it. It has then logged one line and
  sent one request: there is no second attempt.
\<close>

theorem getAccessToken_no_token:
  assumes "replies w 0 = Inr (Response (Inr data))"
    and "get_prop data ''access_token'' = Inr access_token"
    and "\<not> ToBoolean access_token"
  shows "fst (getAccessToken email apiKey w) =
           Inl (Error (''Failed to obtain access token: '' @ json_text data))
       \<and> trace (snd (getAccessToken email apiKey w)) =
           trace w @ [ConsoleLog ''[API] Obtaining OAuth access token...'',
                      Fetch (token_request email apiKey)]"
proof -
  from assms(2) have "data \<noteq> Undefined"
    by (auto dest: get_prop_Inr_defined)
  then have "stringified data = json_text data"
    by (rule stringify_defined)
  with assms show ?thesis
    by (simp add: getAccessToken_def fetch_json_def fetch_def console_log_def emit_def
        token_request_def API_BASE_def)
qed

theorem getAccessToken_no_token_witness:
  "fst (getAccessToken ''user@example.com'' ''key'' (answering (Object [])))
     = Inl (Error ''Failed to obtain access token: {}'')
   \<and> fst (getAccessToken ''user@example.com'' ''key''
            (answering (Object [(''access_token'', Null)])))
     = Inl (Error (''Failed to obtain access token: {'' @ [CHR 0x22] @ ''access_token'' @
                   [CHR 0x22] @ '':null}''))
   \<and> fetches (trace (snd (getAccessToken ''user@example.com'' ''key'' (answering (Object [])))))
     = [token_request ''user@example.com'' ''key'']"
  using getAccessToken_no_token
          [of "answering (Object [])" "Object []" Undefined "''user@example.com''" "''key''"]
    getAccessToken_no_token
          [of "answering (Object [(''access_token'', Null)])"
              "Object [(''access_token'', Null)]" Null "''user@example.com''" "''key''"]
  by (simp add: answering_def quote_json_def quote_char_def)

end
